theory Spec2Isabelle
  imports Complex_Main
begin

text \<open>
  A shallow embedding of the event dispatcher: the type-keyed \<open>DomainEventDispatcher\<close>,
  the validation of \<open>EventService\<close>, the two application handlers, the HTTP relay
  adapter and the Socket.IO adapter with its admission middleware and its table of
  user connections. An exception is a value of \<open>js_error\<close>; a call on an output port is
  an entry of a trace and is taken to return normally; the clock and the external
  libraries are parameters. Console output is modelled only for the relay adapter.
\<close>

section \<open>JavaScript values\<close>

text \<open>
  Events arrive as parsed JSON and are typed \<open>any\<close> in the source, so the model keeps
  them as JavaScript values. Numbers are finite reals; strings are sequences of code
  units; an object is the list of its own properties in insertion order (each key at
  most once, as \<open>JSON.parse\<close> produces them).
\<close>

datatype jsval =
    JUndefined
  | JNull
  | JBool bool
  | JNum real
  | JStr string
  | JArr "jsval list"
  | JObj "(string \<times> jsval) list"

datatype js_error =
    TypeError
  | Error string

text \<open>ToBoolean, as applied by \<open>if (x)\<close>, \<open>!x\<close> and \<open>x && y\<close>.\<close>

fun truthy :: "jsval \<Rightarrow> bool" where
  "truthy JUndefined = False"
| "truthy JNull = False"
| "truthy (JBool b) = b"
| "truthy (JNum r) = (r \<noteq> 0)"
| "truthy (JStr s) = (s \<noteq> [])"
| "truthy (JArr xs) = True"
| "truthy (JObj kvs) = True"

text \<open>
  Property read \<open>v.k\<close>. Reading a property of \<open>null\<close> or \<open>undefined\<close> throws a
  TypeError. The program only reads the names \<open>eventType\<close>, \<open>payload\<close>, \<open>length\<close>,
  \<open>id\<close>, \<open>symbol\<close>, \<open>price\<close>, \<open>userId\<close>, \<open>cryptoId\<close>, \<open>alertPrice\<close>,
  \<open>currentPrice\<close>, \<open>alertType\<close> and \<open>message\<close>; none of them is inherited from a
  built-in prototype except \<open>length\<close> of strings and arrays.
\<close>

fun get_prop :: "jsval \<Rightarrow> string \<Rightarrow> js_error + jsval" where
  "get_prop JUndefined k = Inl TypeError"
| "get_prop JNull k = Inl TypeError"
| "get_prop (JBool b) k = Inr JUndefined"
| "get_prop (JNum r) k = Inr JUndefined"
| "get_prop (JStr s) k = (if k = ''length'' then Inr (JNum (real (length s))) else Inr JUndefined)"
| "get_prop (JArr xs) k = (if k = ''length'' then Inr (JNum (real (length xs))) else Inr JUndefined)"
| "get_prop (JObj kvs) k = (case map_of kvs k of Some v \<Rightarrow> Inr v | None \<Rightarrow> Inr JUndefined)"

text \<open>\<open>Array.prototype.join\<close> with a separator, on already rendered elements.\<close>

fun join :: "string \<Rightarrow> string list \<Rightarrow> string" where
  "join sep [] = []"
| "join sep [s] = s"
| "join sep (s # t # ss) = s @ sep @ join sep (t # ss)"

text \<open>Collects the results of a list of fallible steps; the first error wins.\<close>

fun sequence :: "(js_error + 'a) list \<Rightarrow> js_error + 'a list" where
  "sequence [] = Inr []"
| "sequence (Inl e # rs) = Inl e"
| "sequence (Inr x # rs) = (case sequence rs of Inl e \<Rightarrow> Inl e | Inr xs \<Rightarrow> Inr (x # xs))"

text \<open>
  ToString, as applied by a template literal \<open>`${v}`\<close>. The rendering of a number
  (\<open>Number::toString\<close>) is a parameter \<open>nstr\<close>. An array joins its elements with a
  comma, \<open>null\<close> and \<open>undefined\<close> elements rendering as the empty string. A plain
  object renders as \<open>[object Object]\<close> through \<open>Object.prototype.toString\<close>; when it has
  an own property \<open>toString\<close> (parsed JSON cannot hold a function) neither \<open>toString\<close>
  nor \<open>valueOf\<close> yields a primitive and the conversion throws a TypeError.
\<close>

fun js_to_string :: "(real \<Rightarrow> string) \<Rightarrow> jsval \<Rightarrow> js_error + string" where
  "js_to_string nstr JUndefined = Inr ''undefined''"
| "js_to_string nstr JNull = Inr ''null''"
| "js_to_string nstr (JBool b) = Inr (if b then ''true'' else ''false'')"
| "js_to_string nstr (JNum r) = Inr (nstr r)"
| "js_to_string nstr (JStr s) = Inr s"
| "js_to_string nstr (JArr xs) =
     (case sequence (map (\<lambda>x. if x = JUndefined \<or> x = JNull then Inr [] else js_to_string nstr x) xs) of
        Inl e \<Rightarrow> Inl e
      | Inr ss \<Rightarrow> Inr (join '','' ss))"
| "js_to_string nstr (JObj kvs) =
     (case map_of kvs ''toString'' of
        None \<Rightarrow> Inr ''[object Object]''
      | Some v \<Rightarrow> Inl TypeError)"

section \<open>Event model\<close>

text \<open>The string enum \<open>EventType\<close> of \<open>domain/model/Event.ts\<close>.\<close>

datatype EventType = CRYPTO_UPDATE_EUR | CRYPTO_UPDATE_USD | USER_NOTIFICATION

fun EventType_value :: "EventType \<Rightarrow> string" where
  "EventType_value CRYPTO_UPDATE_EUR = ''CRYPTO_UPDATE_EUR''"
| "EventType_value CRYPTO_UPDATE_USD = ''CRYPTO_UPDATE_USD''"
| "EventType_value USER_NOTIFICATION = ''USER_NOTIFICATION''"

text \<open>\<open>Object.values(EventType)\<close>.\<close>

definition EventType_values :: "EventType list" where
  "EventType_values = [CRYPTO_UPDATE_EUR, CRYPTO_UPDATE_USD, USER_NOTIFICATION]"

text \<open>
  The enum member that a runtime value is, if any. Both \<open>Array.prototype.includes\<close> and
  \<open>Map.prototype.get\<close> compare with SameValueZero, under which only a string equals
  a string.
\<close>

fun as_EventType :: "jsval \<Rightarrow> EventType option" where
  "as_EventType (JStr s) = find (\<lambda>t. EventType_value t = s) EventType_values"
| "as_EventType v = None"

section \<open>Ports and handlers\<close>

text \<open>
  Calls made on the output ports (\<open>EventOutputPort\<close>, \<open>NotificationServicePort\<close>), in
  the order they are made. The currency tag of the relay is the literal \<open>'eur'\<close> or
  \<open>'usd'\<close>.
\<close>

datatype action =
    BroadcastEUR jsval
  | BroadcastUSD jsval
  | SendToUser jsval jsval
  | SendNotification string jsval

text \<open>
  The interface \<open>EventHandler\<close>: the declared kinds and \<open>handle\<close>, which yields the
  port calls it made and the exception it threw, if any.
\<close>

record handler =
  eventTypes :: "EventType list"
  handle :: "jsval \<Rightarrow> action list \<times> js_error option"

section \<open>DomainEventDispatcher\<close>

type_synonym handler_map = "EventType \<rightharpoonup> handler list"

text \<open>The body of the inner \<open>forEach\<close> of the constructor.\<close>

definition register_type :: "handler \<Rightarrow> handler_map \<Rightarrow> EventType \<Rightarrow> handler_map" where
  "register_type h m t =
     (let m1 = (if m t = None then m(t \<mapsto> []) else m)
      in case m1 t of
           Some hs \<Rightarrow> m1(t \<mapsto> hs @ [h])
         | None \<Rightarrow> m1)"

definition register_handler :: "handler_map \<Rightarrow> handler \<Rightarrow> handler_map" where
  "register_handler m h = foldl (register_type h) m (eventTypes h)"

definition DomainEventDispatcher :: "handler list \<Rightarrow> handler_map" where
  "DomainEventDispatcher handlers = foldl register_handler Map.empty handlers"

text \<open>\<open>this.handlers.get(event.eventType)\<close> on a runtime value.\<close>

definition handlers_get :: "handler_map \<Rightarrow> jsval \<Rightarrow> handler list option" where
  "handlers_get m k = (case as_EventType k of None \<Rightarrow> None | Some t \<Rightarrow> m t)"

text \<open>
  The result of a dispatch: the handler invocations made (handler and argument), the
  port calls the handlers made, and the exception that left \<open>dispatch\<close>, if any.
\<close>

type_synonym dispatch_result = "(handler \<times> jsval) list \<times> action list \<times> js_error option"

text \<open>
  \<open>handlers.forEach(handler => handler.handle(event))\<close>: an exception thrown by a
  handler is not caught and ends the iteration.
\<close>

fun run_handlers :: "handler list \<Rightarrow> jsval \<Rightarrow> dispatch_result" where
  "run_handlers [] event = ([], [], None)"
| "run_handlers (h # hs) event =
     (case handle h event of
        (acts, Some e) \<Rightarrow> ([(h, event)], acts, Some e)
      | (acts, None) \<Rightarrow>
          (case run_handlers hs event of
             (calls, acts', r) \<Rightarrow> ((h, event) # calls, acts @ acts', r)))"

text \<open>The error thrown by the \<open>else\<close> branch; rendering the kind may itself throw.\<close>

definition no_handler_error :: "(real \<Rightarrow> string) \<Rightarrow> jsval \<Rightarrow> js_error" where
  "no_handler_error nstr k =
     (case js_to_string nstr k of
        Inl e \<Rightarrow> e
      | Inr s \<Rightarrow> Error (''No handler found for event type: '' @ s))"

definition dispatch :: "(real \<Rightarrow> string) \<Rightarrow> handler_map \<Rightarrow> jsval \<Rightarrow> dispatch_result" where
  "dispatch nstr m event =
     (case get_prop event ''eventType'' of
        Inl e \<Rightarrow> ([], [], Some e)
      | Inr k \<Rightarrow>
          (case handlers_get m k of
             Some hs \<Rightarrow>
               (if length hs > 0 then run_handlers hs event
                else ([], [], Some (no_handler_error nstr k)))
           | None \<Rightarrow> ([], [], Some (no_handler_error nstr k))))"

text \<open>
  The registrations for a kind as the specification words them: handlers in the order
  passed in, each once per occurrence of the kind among its declared kinds.
\<close>

definition registered_for :: "handler list \<Rightarrow> EventType \<Rightarrow> handler list" where
  "registered_for handlers t =
     concat (map (\<lambda>h. map (\<lambda>_. h) (filter (\<lambda>t'. t' = t) (eventTypes h))) handlers)"

text \<open>The registered handlers that run before an exception ends the iteration.\<close>

fun upto_first_throw :: "handler list \<Rightarrow> jsval \<Rightarrow> handler list" where
  "upto_first_throw [] event = []"
| "upto_first_throw (h # hs) event =
     (if snd (handle h event) = None then h # upto_first_throw hs event else [h])"

text \<open>The exception of the first registered handler that throws, if any does.\<close>

fun first_throw :: "handler list \<Rightarrow> jsval \<Rightarrow> js_error option" where
  "first_throw [] event = None"
| "first_throw (h # hs) event =
     (case snd (handle h event) of Some e \<Rightarrow> Some e | None \<Rightarrow> first_throw hs event)"

section \<open>Application handlers\<close>

text \<open>
  Modelled from the spec: \<open>createViewUpdateMessage\<close> of \<open>application/DTO/ViewUpdateMessage\<close>,
  which is imported by \<open>CryptoUpdateHandler.ts\<close> but is not among the sources. The
  specification gives the broadcast-view message as \<open>{timestamp: now, payload: event.payload}\<close>.
  (The test of \<open>EventService\<close> also expects a property \<open>eventType\<close> on that message,
  which the specification does not mention; nothing below depends on it.)
\<close>

definition createViewUpdateMessage :: "string \<Rightarrow> jsval \<Rightarrow> jsval" where
  "createViewUpdateMessage timestamp payload =
     JObj [(''timestamp'', JStr timestamp), (''payload'', payload)]"

text \<open>The arrow function passed to \<open>map\<close> in \<open>createNotificationUpdateMessage\<close>.\<close>

definition project_crypto :: "jsval \<Rightarrow> js_error + jsval" where
  "project_crypto crypto =
     (case get_prop crypto ''id'' of
        Inl e \<Rightarrow> Inl e
      | Inr i \<Rightarrow>
          (case get_prop crypto ''symbol'' of
             Inl e \<Rightarrow> Inl e
           | Inr s \<Rightarrow>
               (case get_prop crypto ''price'' of
                  Inl e \<Rightarrow> Inl e
                | Inr p \<Rightarrow> Inr (JObj [(''id'', i), (''symbol'', s), (''price'', p)]))))"

text \<open>
  The method call \<open>v.map(f)\<close>. Only an array has a callable \<open>map\<close>: on \<open>null\<close> and
  \<open>undefined\<close> the property read throws, on every other parsed-JSON value \<open>map\<close> is
  missing or not a function and the call throws. Elements are visited in order.
\<close>

fun js_map :: "jsval \<Rightarrow> (jsval \<Rightarrow> js_error + jsval) \<Rightarrow> js_error + jsval" where
  "js_map (JArr xs) f = (case sequence (map f xs) of Inl e \<Rightarrow> Inl e | Inr ys \<Rightarrow> Inr (JArr ys))"
| "js_map v f = Inl TypeError"

definition createNotificationUpdateMessage :: "string \<Rightarrow> jsval \<Rightarrow> js_error + jsval" where
  "createNotificationUpdateMessage timestamp eventInbound =
     (case get_prop eventInbound ''payload'' of
        Inl e \<Rightarrow> Inl e
      | Inr payload \<Rightarrow>
          (case js_map payload project_crypto of
             Inl e \<Rightarrow> Inl e
           | Inr cryptoPriceData \<Rightarrow>
               Inr (JObj [(''timestamp'', JStr timestamp), (''payload'', cryptoPriceData)])))"

text \<open>
  \<open>CryptoUpdateHandler.handle\<close>. The two readings of the clock
  (\<open>new Date().toISOString()\<close>) are the parameters \<open>now1\<close> and \<open>now2\<close>. The relay call
  returns a promise that is not awaited.
\<close>

definition CryptoUpdateHandler_handle ::
  "string \<Rightarrow> string \<Rightarrow> jsval \<Rightarrow> action list \<times> js_error option" where
  "CryptoUpdateHandler_handle now1 now2 eventInbound =
     (case get_prop eventInbound ''payload'' of
        Inl e \<Rightarrow> ([], Some e)
      | Inr payload \<Rightarrow>
          (let updateMessage = createViewUpdateMessage now1 payload in
           case createNotificationUpdateMessage now2 eventInbound of
             Inl e \<Rightarrow> ([], Some e)
           | Inr notificationUpdateMessage \<Rightarrow>
               (case get_prop eventInbound ''eventType'' of
                  Inl e \<Rightarrow> ([], Some e)
                | Inr t \<Rightarrow>
                    (if t = JStr (EventType_value CRYPTO_UPDATE_EUR) then
                       ([BroadcastEUR updateMessage,
                         SendNotification ''eur'' notificationUpdateMessage], None)
                     else if t = JStr (EventType_value CRYPTO_UPDATE_USD) then
                       ([BroadcastUSD updateMessage,
                         SendNotification ''usd'' notificationUpdateMessage], None)
                     else ([], None)))))"

definition CryptoUpdateHandler :: "string \<Rightarrow> string \<Rightarrow> handler" where
  "CryptoUpdateHandler now1 now2 =
     \<lparr>eventTypes = [CRYPTO_UPDATE_EUR, CRYPTO_UPDATE_USD],
      handle = CryptoUpdateHandler_handle now1 now2\<rparr>"

text \<open>The verb chosen by \<open>alertType === 'ABOVE' ? 'surpassed' : 'dropped below'\<close>.\<close>

definition alert_verb :: "jsval \<Rightarrow> string" where
  "alert_verb alertType = (if alertType = JStr ''ABOVE'' then ''surpassed'' else ''dropped below'')"

text \<open>The template literal of the default message; the conversions run left to right.\<close>

definition default_message ::
  "(real \<Rightarrow> string) \<Rightarrow> jsval \<Rightarrow> jsval \<Rightarrow> jsval \<Rightarrow> jsval \<Rightarrow> js_error + string" where
  "default_message nstr cryptoId alertType alertPrice currentPrice =
     (case js_to_string nstr cryptoId of
        Inl e \<Rightarrow> Inl e
      | Inr c \<Rightarrow>
          (case js_to_string nstr alertPrice of
             Inl e \<Rightarrow> Inl e
           | Inr a \<Rightarrow>
               (case js_to_string nstr currentPrice of
                  Inl e \<Rightarrow> Inl e
                | Inr p \<Rightarrow>
                    Inr (c @ '' price '' @ alert_verb alertType @ '' your target of $'' @ a
                         @ ''. Current price is $'' @ p @ ''.''))))"

text \<open>
  \<open>UserNotificationHandler.handle\<close>. Destructuring \<open>event.payload\<close> throws when the
  payload is \<open>null\<close> or \<open>undefined\<close>; a field that is missing reads as \<open>undefined\<close>.
\<close>

definition UserNotificationHandler_handle ::
  "(real \<Rightarrow> string) \<Rightarrow> jsval \<Rightarrow> action list \<times> js_error option" where
  "UserNotificationHandler_handle nstr event =
     (case get_prop event ''payload'' of
        Inl e \<Rightarrow> ([], Some e)
      | Inr payload \<Rightarrow>
          (case (get_prop payload ''userId'', get_prop payload ''cryptoId'',
                 get_prop payload ''alertPrice'', get_prop payload ''currentPrice'',
                 get_prop payload ''alertType'', get_prop payload ''message'') of
             (Inr userId, Inr cryptoId, Inr alertPrice, Inr currentPrice, Inr alertType, Inr message) \<Rightarrow>
               (if truthy message then
                  ([SendToUser userId (JObj [(''message'', message)])], None)
                else
                  (case default_message nstr cryptoId alertType alertPrice currentPrice of
                     Inl e \<Rightarrow> ([], Some e)
                   | Inr notificationMessage \<Rightarrow>
                       ([SendToUser userId (JObj [(''message'', JStr notificationMessage)])], None)))
           | _ \<Rightarrow> ([], Some TypeError)))"

definition UserNotificationHandler :: "(real \<Rightarrow> string) \<Rightarrow> handler" where
  "UserNotificationHandler nstr =
     \<lparr>eventTypes = [USER_NOTIFICATION], handle = UserNotificationHandler_handle nstr\<rparr>"

section \<open>EventService\<close>

text \<open>
  \<open>isValidEventData\<close>. \<open>validTypes.includes\<close> compares with SameValueZero; the
  payload's \<open>length\<close> is read without a guard. On the invalid-kind branch the argument
  of \<open>console.error\<close> is a template literal that renders \<open>eventJson.eventType\<close>
  before \<open>return false\<close> is reached; the rendering throws for a kind that cannot be
  converted to a string. The two other \<open>console.error\<close> calls take a string literal.
\<close>

definition isValidEventData :: "(real \<Rightarrow> string) \<Rightarrow> jsval \<Rightarrow> js_error + bool" where
  "isValidEventData nstr eventJson =
     (if \<not> truthy eventJson then Inr False
      else case get_prop eventJson ''eventType'' of
        Inl e \<Rightarrow> Inl e
      | Inr t \<Rightarrow>
          (if \<not> List.member (map (\<lambda>v. JStr (EventType_value v)) EventType_values) t then
             (case js_to_string nstr t of
                Inl e \<Rightarrow> Inl e
              | Inr rendered \<Rightarrow> Inr False)
           else (case get_prop eventJson ''payload'' of
                   Inl e \<Rightarrow> Inl e
                 | Inr payload \<Rightarrow>
                     (case get_prop payload ''length'' of
                        Inl e \<Rightarrow> Inl e
                      | Inr len \<Rightarrow> (if len = JNum 0 then Inr False else Inr True)))))"

text \<open>The dispatcher built by the constructor of \<open>EventService\<close>.\<close>

definition EventService_dispatcher :: "string \<Rightarrow> string \<Rightarrow> (real \<Rightarrow> string) \<Rightarrow> handler_map" where
  "EventService_dispatcher now1 now2 nstr =
     DomainEventDispatcher [CryptoUpdateHandler now1 now2, UserNotificationHandler nstr]"

text \<open>
  \<open>processEvent\<close> is \<open>async\<close>: an exception becomes the rejection of the returned
  promise, here the third component of the result.
\<close>

definition processEvent :: "(real \<Rightarrow> string) \<Rightarrow> handler_map \<Rightarrow> jsval \<Rightarrow> dispatch_result" where
  "processEvent nstr eventDispatcher eventJson =
     (case isValidEventData nstr eventJson of
        Inl e \<Rightarrow> ([], [], Some e)
      | Inr False \<Rightarrow> ([], [], Some (Error ''Invalid event data''))
      | Inr True \<Rightarrow> dispatch nstr eventDispatcher eventJson)"

section \<open>NotificationAdapter\<close>

text \<open>
  The constructor's \<open>baseUrl\<close>; an environment variable is a string or missing, and
  \<open>||\<close> also replaces an empty string by the default.
\<close>

definition env_or :: "string option \<Rightarrow> string \<Rightarrow> string" where
  "env_or v d = (case v of None \<Rightarrow> d | Some s \<Rightarrow> (if s = [] then d else s))"

definition NotificationAdapter_baseUrl :: "string option \<Rightarrow> string option \<Rightarrow> string" where
  "NotificationAdapter_baseUrl notificationServiceName notificationServicePort =
     ''http://'' @ env_or notificationServiceName ''notification'' @ '':''
       @ env_or notificationServicePort ''3000''"

text \<open>How a promise settles.\<close>

datatype ('e, 'a) settled = Fulfilled 'a | Rejected 'e

text \<open>A line written by \<open>console.error\<close>: the text and the value logged with it.\<close>

datatype 'e console_line = ConsoleError string 'e

text \<open>
  \<open>sendNotification\<close>. The HTTP client is the parameter \<open>axios_post\<close>: given the URL
  and the body it fails with an error (\<open>Inl\<close>) or yields a response. The result is how
  the returned promise settles and what was written to the console.
\<close>

definition sendNotification ::
  "string \<Rightarrow> (string \<Rightarrow> jsval \<Rightarrow> 'e + 'r) \<Rightarrow> string \<Rightarrow> jsval
     \<Rightarrow> ('e, unit) settled \<times> 'e console_line list" where
  "sendNotification baseUrl axios_post currency messageJson =
     (case axios_post (baseUrl @ ''/data?currency='' @ currency) messageJson of
        Inr response \<Rightarrow> (Fulfilled (), [])
      | Inl error \<Rightarrow> (Fulfilled (), [ConsoleError ''Error notifying notification service:'' error]))"

section \<open>SocketIOAdapter\<close>

text \<open>
  A connection of the authenticated server: its \<open>id\<close> (here \<open>socket_id\<close>) and the \<open>userId\<close> that the
  admission middleware assigns (missing before that).
\<close>

record socket =
  socket_id :: string
  userId :: "string option"

text \<open>
  \<open>userSocketMap\<close> is a plain object created by \<open>{}\<close>. It holds its own properties
  and has a prototype: \<open>Object.prototype\<close> (\<open>proto = None\<close>) until an assignment to the
  key \<open>__proto__\<close> replaces it by the assigned socket.
\<close>

record user_socket_map =
  own :: "string \<rightharpoonup> socket"
  proto :: "socket option"

definition empty_user_socket_map :: user_socket_map where
  "empty_user_socket_map = \<lparr>own = Map.empty, proto = None\<rparr>"

text \<open>The data properties of \<open>Object.prototype\<close>; all of them are functions.\<close>

definition Object_prototype_names :: "string list" where
  "Object_prototype_names =
     [''constructor'', ''hasOwnProperty'', ''isPrototypeOf'', ''propertyIsEnumerable'',
      ''toLocaleString'', ''toString'', ''valueOf'', ''__defineGetter__'', ''__defineSetter__'',
      ''__lookupGetter__'', ''__lookupSetter__'']"

text \<open>
  What a read of the table yields: a socket, a value inherited from \<open>Object.prototype\<close>
  (one of its functions, or \<open>Object.prototype\<close> itself through \<open>__proto__\<close>: truthy,
  without \<open>emit\<close> and without \<open>id\<close>), or \<open>undefined\<close>.
\<close>

datatype slot = Bound socket | Inherited | Absent

text \<open>
  The read \<open>userSocketMap[k]\<close>. Once the prototype is a socket, a key that is not an
  own property is looked up in socket.io's \<open>Socket\<close> object, which is not part of this
  repository: the result \<open>None\<close> marks that the model does not follow the read.
\<close>

definition table_get :: "user_socket_map \<Rightarrow> string \<Rightarrow> slot option" where
  "table_get t k =
     (case own t k of
        Some s \<Rightarrow> Some (Bound s)
      | None \<Rightarrow>
          (if k = ''__proto__'' then
             (case proto t of None \<Rightarrow> Some Inherited | Some s \<Rightarrow> Some (Bound s))
           else
             (case proto t of
                None \<Rightarrow> Some (if List.member Object_prototype_names k then Inherited else Absent)
              | Some s \<Rightarrow> None)))"

text \<open>
  The assignment \<open>userSocketMap[k] = s\<close>. An own property is overwritten. Otherwise the
  key \<open>__proto__\<close> reaches the setter inherited from \<open>Object.prototype\<close>, which replaces
  the prototype and stores no property; any other key becomes an own property when the
  prototype is \<open>Object.prototype\<close>. With a socket as prototype the outcome depends on
  the \<open>Socket\<close> class; \<open>None\<close> marks that the model does not follow the write.
\<close>

definition table_set :: "user_socket_map \<Rightarrow> string \<Rightarrow> socket \<Rightarrow> user_socket_map option" where
  "table_set t k s =
     (if own t k \<noteq> None then Some (t\<lparr>own := (own t)(k \<mapsto> s)\<rparr>)
      else if k = ''__proto__'' then Some (t\<lparr>proto := Some s\<rparr>)
      else if proto t = None then Some (t\<lparr>own := (own t)(k \<mapsto> s)\<rparr>)
      else None)"

text \<open>\<open>Reflect.deleteProperty(userSocketMap, k)\<close> removes an own property only.\<close>

definition table_delete :: "user_socket_map \<Rightarrow> string \<Rightarrow> user_socket_map" where
  "table_delete t k = t\<lparr>own := (own t)(k := None)\<rparr>"

record SocketIOAdapter =
  isInitialized :: bool
  userSocketMap :: user_socket_map

definition initialize :: "SocketIOAdapter \<Rightarrow> SocketIOAdapter" where
  "initialize a = (if \<not> isInitialized a then a\<lparr>isInitialized := True\<rparr> else a)"

text \<open>The constructor: the field initialisers, then \<open>this.initialize()\<close>.\<close>

definition new_SocketIOAdapter :: SocketIOAdapter where
  "new_SocketIOAdapter = initialize \<lparr>isInitialized = False, userSocketMap = empty_user_socket_map\<rparr>"

text \<open>How the admission middleware ends: \<open>next()\<close> or \<open>next(new Error(message))\<close>.\<close>

datatype next_result = Next | NextError string

text \<open>
  The middleware registered with \<open>authIo.use\<close>. \<open>cookieHeader\<close> is
  \<open>socket.handshake.headers.cookie\<close>; \<open>cookie_parse\<close> and \<open>validateToken\<close> are the
  external cookie parser and the Auth port, each of which may throw (\<open>Inl\<close>);
  \<open>validateToken\<close> otherwise resolves to \<open>{userId}\<close> or \<open>null\<close>. Every exception is
  caught by the enclosing \<open>try\<close>.
\<close>

definition auth_middleware ::
  "(string \<Rightarrow> 'e + (string \<rightharpoonup> string)) \<Rightarrow> (string \<Rightarrow> 'e + string option)
     \<Rightarrow> socket \<Rightarrow> string option \<Rightarrow> socket \<times> next_result" where
  "auth_middleware cookie_parse validateToken sock cookieHeader =
     (case cookieHeader of
        None \<Rightarrow> (sock, NextError ''No cookies provided'')
      | Some h \<Rightarrow>
          (if h = [] then (sock, NextError ''No cookies provided'')
           else
             (case cookie_parse h of
                Inl error \<Rightarrow> (sock, NextError ''Unauthorized'')
              | Inr cookies \<Rightarrow>
                  (case cookies ''authToken'' of
                     None \<Rightarrow> (sock, NextError ''No authToken provided in cookies'')
                   | Some authToken \<Rightarrow>
                       (if authToken = [] then (sock, NextError ''No authToken provided in cookies'')
                        else
                          (case validateToken authToken of
                             Inl error \<Rightarrow> (sock, NextError ''Unauthorized'')
                           | Inr None \<Rightarrow> (sock, NextError ''Unauthorized'')
                           | Inr (Some uid) \<Rightarrow> (sock\<lparr>userId := Some uid\<rparr>, Next)))))))"

text \<open>The property key under which a connection is stored: \<open>socket.userId\<close> as a key.\<close>

definition socket_key :: "socket \<Rightarrow> string" where
  "socket_key sock = (case userId sock of None \<Rightarrow> ''undefined'' | Some u \<Rightarrow> u)"

text \<open>The \<open>connection\<close> listener of the authenticated server.\<close>

definition on_connection :: "SocketIOAdapter \<Rightarrow> socket \<Rightarrow> SocketIOAdapter option" where
  "on_connection a sock =
     (case table_set (userSocketMap a) (socket_key sock) sock of
        None \<Rightarrow> None
      | Some t \<Rightarrow> Some (a\<lparr>userSocketMap := t\<rparr>))"

text \<open>
  The \<open>disconnect\<close> listener that \<open>on_connection\<close> installs on the socket. The
  comparison \<open>mappedSocket.id === socket.id\<close> is false for an inherited value, which
  has no \<open>id\<close>.
\<close>

definition on_disconnect :: "SocketIOAdapter \<Rightarrow> socket \<Rightarrow> SocketIOAdapter option" where
  "on_disconnect a sock =
     (case table_get (userSocketMap a) (socket_key sock) of
        None \<Rightarrow> None
      | Some (Bound mappedSocket) \<Rightarrow>
          (if socket_id mappedSocket = socket_id sock
           then Some (a\<lparr>userSocketMap := table_delete (userSocketMap a) (socket_key sock)\<rparr>)
           else Some a)
      | Some Inherited \<Rightarrow> Some a
      | Some Absent \<Rightarrow> Some a)"

text \<open>What the adapter emits: on the public server to every client, or on one socket.\<close>

datatype emission = IoEmit string jsval | SocketEmit socket string jsval

definition broadcastEUR :: "SocketIOAdapter \<Rightarrow> jsval \<Rightarrow> js_error + emission list" where
  "broadcastEUR a messageJson =
     (if \<not> isInitialized a then Inl (Error ''SocketIOAdapter not initialized'')
      else Inr [IoEmit ''broadcastEUR'' messageJson])"

definition broadcastUSD :: "SocketIOAdapter \<Rightarrow> jsval \<Rightarrow> js_error + emission list" where
  "broadcastUSD a messageJson =
     (if \<not> isInitialized a then Inl (Error ''SocketIOAdapter not initialized'')
      else Inr [IoEmit ''broadcastUSD'' messageJson])"

text \<open>
  \<open>sendToUser\<close>. A truthy value that is not a socket has no \<open>emit\<close>, and calling it
  throws a TypeError.
\<close>

definition sendToUser :: "SocketIOAdapter \<Rightarrow> string \<Rightarrow> jsval \<Rightarrow> (js_error + emission list) option" where
  "sendToUser a uid messageJson =
     (if \<not> isInitialized a then Some (Inl (Error ''SocketIOAdapter not initialized''))
      else
        (case table_get (userSocketMap a) uid of
           None \<Rightarrow> None
         | Some (Bound userSocket) \<Rightarrow> Some (Inr [SocketEmit userSocket ''user-specific-event'' messageJson])
         | Some Inherited \<Rightarrow> Some (Inl TypeError)
         | Some Absent \<Rightarrow> Some (Inr [])))"

section \<open>Specification-side notions\<close>

text \<open>
  A field of a record as the specification reads it: the value of the property,
  \<open>undefined\<close> when the record lacks it.
\<close>

definition record_field :: "jsval \<Rightarrow> string \<Rightarrow> jsval" where
  "record_field r k = (case get_prop r k of Inl e \<Rightarrow> JUndefined | Inr v \<Rightarrow> v)"

text \<open>The projection of a price record to \<open>{id, symbol, price}\<close>.\<close>

definition projected :: "jsval \<Rightarrow> jsval" where
  "projected r =
     JObj [(''id'', record_field r ''id''), (''symbol'', record_field r ''symbol''),
           (''price'', record_field r ''price'')]"

text \<open>
  A key that the table treats as a plain map key: not \<open>__proto__\<close> and not the name of
  a property inherited from \<open>Object.prototype\<close>.
\<close>

definition ordinary_key :: "string \<Rightarrow> bool" where
  "ordinary_key k = (k \<noteq> ''__proto__'' \<and> \<not> List.member Object_prototype_names k)"

section \<open>Properties of the dispatcher\<close>

text \<open>The list stored under a kind, the empty list when there is none.\<close>

definition handlers_of :: "handler_map \<Rightarrow> EventType \<Rightarrow> handler list" where
  "handlers_of m t = (case m t of None \<Rightarrow> [] | Some hs \<Rightarrow> hs)"

text \<open>The constructor never stores an empty list.\<close>

definition no_empty_list :: "handler_map \<Rightarrow> bool" where
  "no_empty_list m = (\<forall>t. m t \<noteq> Some [])"

lemma register_type_get:
  "register_type h m t' t = (if t = t' then Some (handlers_of m t @ [h]) else m t)"
  by (auto simp: register_type_def handlers_of_def Let_def split: option.splits)

lemma handlers_of_register_type:
  "handlers_of (register_type h m t') t = handlers_of m t @ (if t = t' then [h] else [])"
  by (simp add: register_type_get handlers_of_def)

lemma handlers_of_foldl_register_type:
  "handlers_of (foldl (register_type h) m ts) t
   = handlers_of m t @ map (\<lambda>_. h) (filter (\<lambda>t'. t' = t) ts)"
  by (induction ts arbitrary: m) (auto simp: handlers_of_register_type)

lemma handlers_of_register_handler:
  "handlers_of (register_handler m h) t
   = handlers_of m t @ map (\<lambda>_. h) (filter (\<lambda>t'. t' = t) (eventTypes h))"
  by (simp add: register_handler_def handlers_of_foldl_register_type)

lemma handlers_of_foldl_register_handler:
  "handlers_of (foldl register_handler m hs) t = handlers_of m t @ registered_for hs t"
  by (induction hs arbitrary: m) (auto simp: handlers_of_register_handler registered_for_def)

lemma no_empty_list_register_type: "no_empty_list m \<Longrightarrow> no_empty_list (register_type h m t)"
  by (auto simp: no_empty_list_def register_type_get)

lemma no_empty_list_foldl_register_type:
  "no_empty_list m \<Longrightarrow> no_empty_list (foldl (register_type h) m ts)"
  by (induction ts arbitrary: m) (auto simp: no_empty_list_register_type)

lemma no_empty_list_foldl_register_handler:
  "no_empty_list m \<Longrightarrow> no_empty_list (foldl register_handler m hs)"
  by (induction hs arbitrary: m)
    (auto simp: register_handler_def no_empty_list_foldl_register_type)

text \<open>The map the constructor builds, kind by kind.\<close>

lemma DomainEventDispatcher_get:
  "DomainEventDispatcher hs t
   = (if registered_for hs t = [] then None else Some (registered_for hs t))"
proof -
  have "handlers_of (DomainEventDispatcher hs) t = handlers_of Map.empty t @ registered_for hs t"
    unfolding DomainEventDispatcher_def by (rule handlers_of_foldl_register_handler)
  then have stored: "handlers_of (DomainEventDispatcher hs) t = registered_for hs t"
    by (simp add: handlers_of_def)
  have "no_empty_list (DomainEventDispatcher hs)"
    unfolding DomainEventDispatcher_def
    by (rule no_empty_list_foldl_register_handler) (simp add: no_empty_list_def)
  with stored show ?thesis
    by (auto simp: handlers_of_def no_empty_list_def split: option.splits)
qed

lemma set_registered_for:
  "set (registered_for hs t) = {h \<in> set hs. t \<in> set (eventTypes h)}"
  by (auto simp: registered_for_def)

lemma run_handlers_eq:
  "run_handlers hs ev
   = (map (\<lambda>h. (h, ev)) (upto_first_throw hs ev),
      concat (map (\<lambda>h. fst (handle h ev)) (upto_first_throw hs ev)),
      first_throw hs ev)"
  by (induction hs) (auto split: prod.splits option.splits)

lemma first_throw_none:
  "\<forall>h \<in> set hs. snd (handle h ev) = None \<Longrightarrow> first_throw hs ev = None"
  by (induction hs) auto

lemma filter_eq_distinct:
  "distinct ts \<Longrightarrow> filter (\<lambda>t'. t' = t) ts = (if t \<in> set ts then [t] else [])"
  by (induction ts) auto

lemma registered_for_distinct:
  "\<forall>h \<in> set hs. distinct (eventTypes h)
   \<Longrightarrow> registered_for hs t = filter (\<lambda>h. t \<in> set (eventTypes h)) hs"
  by (induction hs) (auto simp: registered_for_def filter_eq_distinct)

lemma upto_first_throw_all:
  "\<forall>h \<in> set hs. snd (handle h ev) = None \<Longrightarrow> upto_first_throw hs ev = hs"
  by (induction hs) auto

lemma set_upto_first_throw: "set (upto_first_throw hs ev) \<subseteq> set hs"
  by (induction hs) auto

lemma dispatch_registered:
  assumes "get_prop event ''eventType'' = Inr k" and "as_EventType k = Some t"
    and "registered_for handlers t \<noteq> []"
  shows "dispatch nstr (DomainEventDispatcher handlers) event
         = run_handlers (registered_for handlers t) event"
  using assms by (simp add: dispatch_def handlers_get_def DomainEventDispatcher_get)

text \<open>
  C1, as stated, fails in two ways. With two handlers registered for
  \<open>USER_NOTIFICATION\<close>, the first of which throws, \<open>forEach\<close> is left at the exception
  and the second handler, although registered for the event's kind, is never invoked.
  And a handler that declares \<open>USER_NOTIFICATION\<close> twice is registered twice and is
  invoked twice, not once.
\<close>

theorem dispatch_stops_at_throw_counterexample:
  "fst (dispatch (\<lambda>r. [])
         (DomainEventDispatcher
            [\<lparr>eventTypes = [USER_NOTIFICATION], handle = (\<lambda>e. ([], Some (Error ''failed'')))\<rparr>,
             UserNotificationHandler (\<lambda>r. [])])
         (JObj [(''eventType'', JStr ''USER_NOTIFICATION''),
                (''payload'', JObj [(''userId'', JStr ''user123''), (''message'', JStr ''hello'')])]))
   \<noteq> map (\<lambda>h. (h, JObj [(''eventType'', JStr ''USER_NOTIFICATION''),
                          (''payload'', JObj [(''userId'', JStr ''user123''),
                                              (''message'', JStr ''hello'')])]))
        (registered_for
           [\<lparr>eventTypes = [USER_NOTIFICATION], handle = (\<lambda>e. ([], Some (Error ''failed'')))\<rparr>,
            UserNotificationHandler (\<lambda>r. [])]
           USER_NOTIFICATION)
   \<and> fst (dispatch (\<lambda>r. [])
         (DomainEventDispatcher
            [\<lparr>eventTypes = [USER_NOTIFICATION, USER_NOTIFICATION],
              handle = UserNotificationHandler_handle (\<lambda>r. [])\<rparr>])
         (JObj [(''eventType'', JStr ''USER_NOTIFICATION''),
                (''payload'', JObj [(''userId'', JStr ''user123''), (''message'', JStr ''hello'')])]))
     = [(\<lparr>eventTypes = [USER_NOTIFICATION, USER_NOTIFICATION],
          handle = UserNotificationHandler_handle (\<lambda>r. [])\<rparr>,
         JObj [(''eventType'', JStr ''USER_NOTIFICATION''),
               (''payload'', JObj [(''userId'', JStr ''user123''), (''message'', JStr ''hello'')])]),
        (\<lparr>eventTypes = [USER_NOTIFICATION, USER_NOTIFICATION],
          handle = UserNotificationHandler_handle (\<lambda>r. [])\<rparr>,
         JObj [(''eventType'', JStr ''USER_NOTIFICATION''),
               (''payload'', JObj [(''userId'', JStr ''user123''), (''message'', JStr ''hello'')])])]"
proof -
  let ?F = "\<lparr>eventTypes = [USER_NOTIFICATION], handle = (\<lambda>e. ([], Some (Error ''failed'')))\<rparr>"
  let ?U = "UserNotificationHandler (\<lambda>r. [])"
  let ?D = "\<lparr>eventTypes = [USER_NOTIFICATION, USER_NOTIFICATION],
             handle = UserNotificationHandler_handle (\<lambda>r. [])\<rparr>"
  let ?ev = "JObj [(''eventType'', JStr ''USER_NOTIFICATION''),
                   (''payload'', JObj [(''userId'', JStr ''user123''), (''message'', JStr ''hello'')])]"
  have r: "registered_for [?F, ?U] USER_NOTIFICATION = [?F, ?U]"
    by (simp add: registered_for_def UserNotificationHandler_def)
  have "fst (dispatch (\<lambda>r. []) (DomainEventDispatcher [?F, ?U]) ?ev) = [(?F, ?ev)]"
    by (simp add: dispatch_def handlers_get_def EventType_values_def DomainEventDispatcher_get r)
  then have stops: "fst (dispatch (\<lambda>r. []) (DomainEventDispatcher [?F, ?U]) ?ev)
      \<noteq> map (\<lambda>h. (h, ?ev)) (registered_for [?F, ?U] USER_NOTIFICATION)"
    by (simp add: r)
  have d: "registered_for [?D] USER_NOTIFICATION = [?D, ?D]"
    by (simp add: registered_for_def)
  have twice: "fst (dispatch (\<lambda>r. []) (DomainEventDispatcher [?D]) ?ev) = [(?D, ?ev), (?D, ?ev)]"
    by (simp add: dispatch_def handlers_get_def EventType_values_def DomainEventDispatcher_get d
        UserNotificationHandler_handle_def)
  from stops twice show ?thesis by blast
qed

text \<open>
  C1, amended. For every list of handlers passed to the constructor and every event
  whose kind has at least one registration, \<open>dispatch\<close> invokes the handlers registered
  for that kind in registration order (order passed in, then order of each handler's
  declared kinds), each with the same event, up to and including the first handler that
  throws; that exception leaves \<open>dispatch\<close> to the caller, and the port calls made are
  those of the handlers invoked, in order. When no registered handler throws, every
  registration is invoked and \<open>dispatch\<close> returns normally. A handler is invoked once
  for each occurrence of the kind among its declared kinds: when no handler declares a
  kind twice, the registrations are the handlers passed in that declare the kind, each
  once per occurrence in the list passed in. Every handler invoked was passed to the
  constructor and declares the event's kind.
\<close>

theorem dispatch_invokes_registered_until_throw:
  assumes "get_prop event ''eventType'' = Inr k" and "as_EventType k = Some t"
    and "registered_for handlers t \<noteq> []"
  shows "dispatch nstr (DomainEventDispatcher handlers) event
           = (map (\<lambda>h. (h, event)) (upto_first_throw (registered_for handlers t) event),
              concat (map (\<lambda>h. fst (handle h event))
                        (upto_first_throw (registered_for handlers t) event)),
              first_throw (registered_for handlers t) event)
       \<and> ((\<forall>h \<in> set (registered_for handlers t). snd (handle h event) = None) \<longrightarrow>
            dispatch nstr (DomainEventDispatcher handlers) event
              = (map (\<lambda>h. (h, event)) (registered_for handlers t),
                 concat (map (\<lambda>h. fst (handle h event)) (registered_for handlers t)),
                 None))
       \<and> ((\<forall>h \<in> set handlers. distinct (eventTypes h)) \<longrightarrow>
            registered_for handlers t = filter (\<lambda>h. t \<in> set (eventTypes h)) handlers)
       \<and> (\<forall>c \<in> set (fst (dispatch nstr (DomainEventDispatcher handlers) event)).
            snd c = event \<and> fst c \<in> set handlers \<and> t \<in> set (eventTypes (fst c)))"
proof -
  let ?r = "registered_for handlers t"
  have whole: "dispatch nstr (DomainEventDispatcher handlers) event
           = (map (\<lambda>h. (h, event)) (upto_first_throw ?r event),
              concat (map (\<lambda>h. fst (handle h event)) (upto_first_throw ?r event)),
              first_throw ?r event)"
    using assms by (simp add: dispatch_registered run_handlers_eq)
  have quiet: "(\<forall>h \<in> set ?r. snd (handle h event) = None) \<longrightarrow>
            dispatch nstr (DomainEventDispatcher handlers) event
              = (map (\<lambda>h. (h, event)) ?r, concat (map (\<lambda>h. fst (handle h event)) ?r), None)"
    using whole by (simp add: upto_first_throw_all first_throw_none)
  have once: "(\<forall>h \<in> set handlers. distinct (eventTypes h)) \<longrightarrow>
            ?r = filter (\<lambda>h. t \<in> set (eventTypes h)) handlers"
    by (simp add: registered_for_distinct)
  have "set (upto_first_throw ?r event) \<subseteq> {h \<in> set handlers. t \<in> set (eventTypes h)}"
    using set_upto_first_throw [of ?r event] by (simp add: set_registered_for)
  with whole have own: "\<forall>c \<in> set (fst (dispatch nstr (DomainEventDispatcher handlers) event)).
            snd c = event \<and> fst c \<in> set handlers \<and> t \<in> set (eventTypes (fst c))"
    by auto
  from whole quiet once own show ?thesis by blast
qed

theorem dispatch_invokes_registered_until_throw_witness:
  "get_prop (JObj [(''eventType'', JStr ''USER_NOTIFICATION''),
                   (''payload'', JObj [(''userId'', JStr ''user123''), (''message'', JStr ''hello'')])])
            ''eventType'' = Inr (JStr ''USER_NOTIFICATION'')
   \<and> as_EventType (JStr ''USER_NOTIFICATION'') = Some USER_NOTIFICATION
   \<and> registered_for
        [CryptoUpdateHandler ''t1'' ''t2'', UserNotificationHandler (\<lambda>r. []),
         \<lparr>eventTypes = [USER_NOTIFICATION], handle = (\<lambda>e. ([], Some (Error ''failed'')))\<rparr>,
         UserNotificationHandler (\<lambda>r. [])]
        USER_NOTIFICATION \<noteq> []
   \<and> dispatch (\<lambda>r. [])
        (DomainEventDispatcher
           [CryptoUpdateHandler ''t1'' ''t2'', UserNotificationHandler (\<lambda>r. []),
            \<lparr>eventTypes = [USER_NOTIFICATION], handle = (\<lambda>e. ([], Some (Error ''failed'')))\<rparr>,
            UserNotificationHandler (\<lambda>r. [])])
        (JObj [(''eventType'', JStr ''USER_NOTIFICATION''),
               (''payload'', JObj [(''userId'', JStr ''user123''), (''message'', JStr ''hello'')])])
     = ([(UserNotificationHandler (\<lambda>r. []),
          JObj [(''eventType'', JStr ''USER_NOTIFICATION''),
                (''payload'', JObj [(''userId'', JStr ''user123''), (''message'', JStr ''hello'')])]),
         (\<lparr>eventTypes = [USER_NOTIFICATION], handle = (\<lambda>e. ([], Some (Error ''failed'')))\<rparr>,
          JObj [(''eventType'', JStr ''USER_NOTIFICATION''),
                (''payload'', JObj [(''userId'', JStr ''user123''), (''message'', JStr ''hello'')])])],
        [SendToUser (JStr ''user123'') (JObj [(''message'', JStr ''hello'')])],
        Some (Error ''failed''))"
proof -
  let ?C = "CryptoUpdateHandler ''t1'' ''t2''"
  let ?U = "UserNotificationHandler (\<lambda>r. [])"
  let ?F = "\<lparr>eventTypes = [USER_NOTIFICATION], handle = (\<lambda>e. ([], Some (Error ''failed'')))\<rparr>"
  let ?ev = "JObj [(''eventType'', JStr ''USER_NOTIFICATION''),
                   (''payload'', JObj [(''userId'', JStr ''user123''), (''message'', JStr ''hello'')])]"
  let ?H = "[?C, ?U, ?F, ?U]"
  have a: "get_prop ?ev ''eventType'' = Inr (JStr ''USER_NOTIFICATION'')" by simp
  have b: "as_EventType (JStr ''USER_NOTIFICATION'') = Some USER_NOTIFICATION"
    by (simp add: EventType_values_def)
  have r: "registered_for ?H USER_NOTIFICATION = [?U, ?F, ?U]"
    by (simp add: registered_for_def CryptoUpdateHandler_def UserNotificationHandler_def)
  have c: "registered_for ?H USER_NOTIFICATION \<noteq> []" by (simp add: r)
  have h: "handle ?U ?ev = ([SendToUser (JStr ''user123'') (JObj [(''message'', JStr ''hello'')])], None)"
    by (simp add: UserNotificationHandler_def UserNotificationHandler_handle_def)
  from dispatch_invokes_registered_until_throw [OF a b c, of "\<lambda>r. []"] a b c
  show ?thesis by (simp add: r h)
qed

text \<open>
  C5. For every event whose kind has no registered handler (no list, or an empty list),
  \<open>dispatch\<close> throws \<open>Error("No handler found for event type: <kind>")\<close> to its caller
  and invokes no handler and makes no port call. The kind is any value whose rendering
  in the message succeeds, which includes every string.
\<close>

theorem dispatch_without_handlers_throws:
  assumes "get_prop event ''eventType'' = Inr k"
    and "js_to_string nstr k = Inr s"
    and "handlers_get m k = None \<or> handlers_get m k = Some []"
  shows "dispatch nstr m event
         = ([], [], Some (Error (''No handler found for event type: '' @ s)))"
  using assms by (auto simp: dispatch_def no_handler_error_def)

theorem dispatch_without_handlers_throws_witness:
  "get_prop (JObj [(''eventType'', JStr ''USER_NOTIFICATION''),
                   (''payload'', JObj [(''userId'', JStr ''user123'')])])
            ''eventType'' = Inr (JStr ''USER_NOTIFICATION'')
   \<and> js_to_string (\<lambda>r. []) (JStr ''USER_NOTIFICATION'') = Inr ''USER_NOTIFICATION''
   \<and> handlers_get (DomainEventDispatcher [CryptoUpdateHandler ''t1'' ''t2''])
        (JStr ''USER_NOTIFICATION'') = None
   \<and> dispatch (\<lambda>r. []) (DomainEventDispatcher [CryptoUpdateHandler ''t1'' ''t2''])
        (JObj [(''eventType'', JStr ''USER_NOTIFICATION''),
               (''payload'', JObj [(''userId'', JStr ''user123'')])])
       = ([], [], Some (Error ''No handler found for event type: USER_NOTIFICATION''))"
proof -
  let ?ev = "JObj [(''eventType'', JStr ''USER_NOTIFICATION''),
                   (''payload'', JObj [(''userId'', JStr ''user123'')])]"
  let ?m = "DomainEventDispatcher [CryptoUpdateHandler ''t1'' ''t2'']"
  have a: "get_prop ?ev ''eventType'' = Inr (JStr ''USER_NOTIFICATION'')" by simp
  have b: "js_to_string (\<lambda>r. []) (JStr ''USER_NOTIFICATION'') = Inr ''USER_NOTIFICATION''" by simp
  have c: "handlers_get ?m (JStr ''USER_NOTIFICATION'') = None"
    by (simp add: handlers_get_def EventType_values_def DomainEventDispatcher_get
        registered_for_def CryptoUpdateHandler_def)
  from dispatch_without_handlers_throws [OF a b disjI1 [OF c]] a b c
  show ?thesis by simp
qed

section \<open>Properties of event validation\<close>

lemma set_EventType_values: "set EventType_values = UNIV"
proof -
  have "t \<in> set EventType_values" for t
    by (cases t) (simp_all add: EventType_values_def)
  then show ?thesis by auto
qed

lemma in_EventType_values:
  "k \<in> (\<lambda>v. JStr (EventType_value v)) ` set EventType_values
   \<longleftrightarrow> (\<exists>t. k = JStr (EventType_value t))"
  by (auto simp: set_EventType_values)

lemma get_prop_defined:
  "v \<noteq> JNull \<Longrightarrow> v \<noteq> JUndefined \<Longrightarrow> \<exists>w. get_prop v k = Inr w"
  by (cases v) (simp_all split: option.splits)

text \<open>
  Where the kind can be rendered (every string, number, boolean, \<open>null\<close> and
  \<open>undefined\<close>, and every plain object without an own \<open>toString\<close>), an event whose
  kind is not one of the three values of the enum, or whose payload is the empty
  sequence, is rejected with \<open>Error("Invalid event data")\<close>; no handler is invoked and
  no port call is made, since \<open>dispatch\<close> is not reached.
\<close>

lemma processEvent_rejects_invalid:
  assumes "(\<forall>t. get_prop eventJson ''eventType'' \<noteq> Inr (JStr (EventType_value t)))
           \<or> get_prop eventJson ''payload'' = Inr (JArr [])"
    and "\<And>k. get_prop eventJson ''eventType'' = Inr k \<Longrightarrow> \<exists>s. js_to_string nstr k = Inr s"
  shows "processEvent nstr eventDispatcher eventJson
         = ([], [], Some (Error ''Invalid event data''))"
proof -
  have "isValidEventData nstr eventJson = Inr False"
  proof (cases "truthy eventJson")
    case False
    then show ?thesis by (simp add: isValidEventData_def)
  next
    case True
    then have "eventJson \<noteq> JNull" and "eventJson \<noteq> JUndefined" by auto
    then obtain k where k: "get_prop eventJson ''eventType'' = Inr k"
      using get_prop_defined by blast
    then obtain s where s: "js_to_string nstr k = Inr s"
      using assms(2) by blast
    show ?thesis
    proof (cases "\<exists>t. k = JStr (EventType_value t)")
      case False
      with True k s show ?thesis
        by (simp add: isValidEventData_def in_EventType_values)
    next
      case known: True
      with k assms(1) have "get_prop eventJson ''payload'' = Inr (JArr [])" by auto
      with True k known show ?thesis
        by (simp add: isValidEventData_def in_EventType_values)
    qed
  qed
  then show ?thesis by (simp add: processEvent_def)
qed

lemma processEvent_rejects_invalid_examples:
  "processEvent (\<lambda>r. []) (EventService_dispatcher ''t1'' ''t2'' (\<lambda>r. []))
     (JObj [(''eventType'', JStr ''CRYPTO_UPDATE_EUR''), (''payload'', JArr [])])
   = ([], [], Some (Error ''Invalid event data''))
   \<and> processEvent (\<lambda>r. []) (EventService_dispatcher ''t1'' ''t2'' (\<lambda>r. []))
     (JObj [(''eventType'', JStr ''INVALID_TYPE''),
            (''payload'', JArr [JObj [(''id'', JStr ''bitcoin''), (''price'', JNum 40000)]])])
   = ([], [], Some (Error ''Invalid event data''))"
  by (simp add: processEvent_def isValidEventData_def EventType_values_def)

text \<open>
  C4 at a failing input. For the submitted event
  \<open>{"eventType": {"toString": "x"}, "payload": ["x"]}\<close> the kind is outside the enum,
  yet \<open>processEvent\<close> does not reject with \<open>Error("Invalid event data")\<close>: rendering the
  kind for the log line of the invalid-kind branch throws, and the rejection is that
  TypeError. No handler is invoked.
\<close>

theorem processEvent_unrenderable_kind_throws:
  "processEvent nstr eventDispatcher
     (JObj [(''eventType'', JObj [(''toString'', JStr ''x'')]), (''payload'', JArr [JStr ''x''])])
   = ([], [], Some TypeError)"
  by (simp add: processEvent_def isValidEventData_def EventType_values_def)

text \<open>
  C10. Validation reads \<open>payload.length\<close> without a guard. For every event with a known
  kind: when the payload is \<open>null\<close> or \<open>undefined\<close> (also when it is missing),
  \<open>processEvent\<close> rejects with a TypeError, not with the invalid-event error; and when
  the payload's \<open>length\<close> is anything but the number zero (an object-shaped payload has
  none), validation accepts the event and \<open>processEvent\<close> is the dispatch of it.
\<close>

theorem processEvent_unguarded_length:
  assumes "get_prop eventJson ''eventType'' = Inr (JStr (EventType_value t))"
  shows "(get_prop eventJson ''payload'' = Inr JNull
            \<or> get_prop eventJson ''payload'' = Inr JUndefined
          \<longrightarrow> processEvent nstr eventDispatcher eventJson = ([], [], Some TypeError))
       \<and> (\<forall>payload len. get_prop eventJson ''payload'' = Inr payload
              \<and> get_prop payload ''length'' = Inr len \<and> len \<noteq> JNum 0
            \<longrightarrow> isValidEventData nstr eventJson = Inr True
              \<and> processEvent nstr eventDispatcher eventJson
                  = dispatch nstr eventDispatcher eventJson)"
proof -
  have tr: "truthy eventJson"
    using assms by (cases eventJson) (auto split: if_splits)
  have mem: "JStr (EventType_value t) \<in> (\<lambda>v. JStr (EventType_value v)) ` set EventType_values"
    unfolding in_EventType_values by blast
  show ?thesis
    using assms tr mem by (auto simp: processEvent_def isValidEventData_def)
qed

theorem processEvent_unguarded_length_witness:
  "get_prop (JObj [(''eventType'', JStr ''USER_NOTIFICATION''), (''payload'', JNull)]) ''eventType''
     = Inr (JStr (EventType_value USER_NOTIFICATION))
   \<and> get_prop (JObj [(''eventType'', JStr ''USER_NOTIFICATION''), (''payload'', JNull)]) ''payload''
     = Inr JNull
   \<and> processEvent (\<lambda>r. []) (EventService_dispatcher ''t1'' ''t2'' (\<lambda>r. []))
        (JObj [(''eventType'', JStr ''USER_NOTIFICATION''), (''payload'', JNull)])
       = ([], [], Some TypeError)
   \<and> get_prop (JObj [(''userId'', JStr ''user123'')]) ''length'' = Inr JUndefined
   \<and> isValidEventData (\<lambda>r. []) (JObj [(''eventType'', JStr ''USER_NOTIFICATION''),
                               (''payload'', JObj [(''userId'', JStr ''user123'')])]) = Inr True"
proof -
  let ?e1 = "JObj [(''eventType'', JStr ''USER_NOTIFICATION''), (''payload'', JNull)]"
  let ?p2 = "JObj [(''userId'', JStr ''user123'')]"
  let ?e2 = "JObj [(''eventType'', JStr ''USER_NOTIFICATION''), (''payload'', ?p2)]"
  have a1: "get_prop ?e1 ''eventType'' = Inr (JStr (EventType_value USER_NOTIFICATION))" by simp
  have b1: "get_prop ?e1 ''payload'' = Inr JNull" by simp
  have a2: "get_prop ?e2 ''eventType'' = Inr (JStr (EventType_value USER_NOTIFICATION))" by simp
  have b2: "get_prop ?e2 ''payload'' = Inr ?p2" by simp
  have c2: "get_prop ?p2 ''length'' = Inr JUndefined" by simp
  have d2: "JUndefined \<noteq> JNum 0" by simp
  from processEvent_unguarded_length [OF a1, of "\<lambda>r. []" "EventService_dispatcher ''t1'' ''t2'' (\<lambda>r. [])"]
    processEvent_unguarded_length [OF a2, of "\<lambda>r. []" "EventService_dispatcher ''t1'' ''t2'' (\<lambda>r. [])"]
    a1 b1 b2 c2 d2
  show ?thesis by blast
qed

section \<open>Properties of the handlers\<close>

lemma project_crypto_projected:
  assumes "r \<noteq> JNull" and "r \<noteq> JUndefined"
  shows "project_crypto r = Inr (projected r)"
proof -
  obtain i s p where "get_prop r ''id'' = Inr i" "get_prop r ''symbol'' = Inr s"
    "get_prop r ''price'' = Inr p"
    using assms get_prop_defined by blast
  then show ?thesis
    by (simp add: project_crypto_def projected_def record_field_def)
qed

lemma sequence_project_crypto:
  "\<forall>r \<in> set records. r \<noteq> JNull \<and> r \<noteq> JUndefined
   \<Longrightarrow> sequence (map project_crypto records) = Inr (map projected records)"
  by (induction records) (simp_all add: project_crypto_projected)

text \<open>
  C7. For every crypto-update event (kind \<open>CRYPTO_UPDATE_EUR\<close> or \<open>CRYPTO_UPDATE_USD\<close>,
  payload a sequence of records), the handler makes exactly two port calls: one broadcast
  on the sub-channel of the event's currency, whose message has the event's payload
  verbatim as its \<open>payload\<close>, and one call of the notification relay tagged with that
  currency, whose message has as \<open>payload\<close> the records projected to
  \<open>{id, symbol, price}\<close>. Nothing is sent on the other sub-channel.
\<close>

theorem CryptoUpdateHandler_broadcasts_and_relays:
  assumes "get_prop event ''eventType'' = Inr (JStr (EventType_value t))"
    and "t = CRYPTO_UPDATE_EUR \<or> t = CRYPTO_UPDATE_USD"
    and "get_prop event ''payload'' = Inr (JArr records)"
    and "\<forall>r \<in> set records. r \<noteq> JNull \<and> r \<noteq> JUndefined"
  shows "CryptoUpdateHandler_handle now1 now2 event
         = ([(if t = CRYPTO_UPDATE_EUR then BroadcastEUR else BroadcastUSD)
               (createViewUpdateMessage now1 (JArr records)),
             SendNotification (if t = CRYPTO_UPDATE_EUR then ''eur'' else ''usd'')
               (JObj [(''timestamp'', JStr now2), (''payload'', JArr (map projected records))])],
            None)
       \<and> get_prop (createViewUpdateMessage now1 (JArr records)) ''payload'' = Inr (JArr records)"
proof -
  have n: "createNotificationUpdateMessage now2 event
           = Inr (JObj [(''timestamp'', JStr now2), (''payload'', JArr (map projected records))])"
    using assms(3,4) by (simp add: createNotificationUpdateMessage_def sequence_project_crypto)
  have v: "get_prop (createViewUpdateMessage now1 (JArr records)) ''payload'' = Inr (JArr records)"
    by (simp add: createViewUpdateMessage_def)
  from assms(2) show ?thesis
  proof
    assume "t = CRYPTO_UPDATE_EUR"
    with assms(1,3) n v show ?thesis by (simp add: CryptoUpdateHandler_handle_def)
  next
    assume "t = CRYPTO_UPDATE_USD"
    with assms(1,3) n v show ?thesis by (simp add: CryptoUpdateHandler_handle_def)
  qed
qed

theorem CryptoUpdateHandler_broadcasts_and_relays_witness:
  "CryptoUpdateHandler_handle ''t1'' ''t2''
     (JObj [(''eventType'', JStr ''CRYPTO_UPDATE_EUR''),
            (''payload'', JArr [JObj [(''id'', JStr ''bitcoin''), (''symbol'', JStr ''btc''),
                                      (''name'', JStr ''Bitcoin''), (''price'', JNum 102809)],
                                JObj [(''id'', JStr ''ethereum''), (''symbol'', JStr ''eth''),
                                      (''name'', JStr ''Ethereum''), (''price'', JNum 3187.37)]])])
   = ([BroadcastEUR
         (createViewUpdateMessage ''t1''
            (JArr [JObj [(''id'', JStr ''bitcoin''), (''symbol'', JStr ''btc''),
                         (''name'', JStr ''Bitcoin''), (''price'', JNum 102809)],
                   JObj [(''id'', JStr ''ethereum''), (''symbol'', JStr ''eth''),
                         (''name'', JStr ''Ethereum''), (''price'', JNum 3187.37)]])),
       SendNotification ''eur''
         (JObj [(''timestamp'', JStr ''t2''),
                (''payload'', JArr [JObj [(''id'', JStr ''bitcoin''), (''symbol'', JStr ''btc''),
                                          (''price'', JNum 102809)],
                                    JObj [(''id'', JStr ''ethereum''), (''symbol'', JStr ''eth''),
                                          (''price'', JNum 3187.37)]])])],
      None)"
proof -
  let ?rs = "[JObj [(''id'', JStr ''bitcoin''), (''symbol'', JStr ''btc''),
                    (''name'', JStr ''Bitcoin''), (''price'', JNum 102809)],
              JObj [(''id'', JStr ''ethereum''), (''symbol'', JStr ''eth''),
                    (''name'', JStr ''Ethereum''), (''price'', JNum 3187.37)]]"
  let ?ev = "JObj [(''eventType'', JStr ''CRYPTO_UPDATE_EUR''), (''payload'', JArr ?rs)]"
  have a: "get_prop ?ev ''eventType'' = Inr (JStr (EventType_value CRYPTO_UPDATE_EUR))" by simp
  have b: "CRYPTO_UPDATE_EUR = CRYPTO_UPDATE_EUR \<or> CRYPTO_UPDATE_EUR = CRYPTO_UPDATE_USD" by simp
  have c: "get_prop ?ev ''payload'' = Inr (JArr ?rs)" by simp
  have d: "\<forall>r \<in> set ?rs. r \<noteq> JNull \<and> r \<noteq> JUndefined" by simp
  from CryptoUpdateHandler_broadcasts_and_relays [OF a b c d, of "''t1''" "''t2''"]
  show ?thesis
    by (simp add: projected_def record_field_def)
qed

text \<open>
  C8, as stated, fails: a payload whose \<open>message\<close> field is present and is the empty
  string is not delivered unchanged; the empty string is falsy, and the handler delivers
  the synthesized text.
\<close>

theorem UserNotificationHandler_empty_message_counterexample:
  "UserNotificationHandler_handle (\<lambda>r. [])
     (JObj [(''eventType'', JStr ''USER_NOTIFICATION''),
            (''payload'', JObj [(''userId'', JStr ''user123''), (''cryptoId'', JStr ''bitcoin''),
                                (''alertPrice'', JStr ''40000''), (''currentPrice'', JStr ''41000''),
                                (''alertType'', JStr ''ABOVE''), (''message'', JStr [])])])
   = ([SendToUser (JStr ''user123'')
         (JObj [(''message'',
            JStr ''bitcoin price surpassed your target of $40000. Current price is $41000.'')])],
      None)
   \<and> UserNotificationHandler_handle (\<lambda>r. [])
     (JObj [(''eventType'', JStr ''USER_NOTIFICATION''),
            (''payload'', JObj [(''userId'', JStr ''user123''), (''cryptoId'', JStr ''bitcoin''),
                                (''alertPrice'', JStr ''40000''), (''currentPrice'', JStr ''41000''),
                                (''alertType'', JStr ''ABOVE''), (''message'', JStr [])])])
   \<noteq> ([SendToUser (JStr ''user123'') (JObj [(''message'', JStr [])])], None)"
  by (simp add: UserNotificationHandler_handle_def default_message_def alert_verb_def)

text \<open>
  C8, amended. For every \<open>USER_NOTIFICATION\<close> event whose payload can be destructured: if
  the payload's \<open>message\<close> is truthy (present and not an empty string), that exact value
  is delivered unchanged; otherwise (missing or falsy) the delivered message is
  \<open><cryptoId> price <surpassed|dropped below> your target of $<alertPrice>. Current price is $<currentPrice>.\<close>
  with each field rendered as a template literal renders it, the verb being
  \<open>surpassed\<close> if and only if \<open>alertType\<close> is the string \<open>ABOVE\<close>. The handler makes
  exactly one port call, \<open>sendToUser(userId, {message})\<close>, and no broadcast.
\<close>

theorem UserNotificationHandler_delivers:
  assumes "get_prop event ''payload'' = Inr payload"
    and "get_prop payload ''userId'' = Inr uid"
    and "get_prop payload ''cryptoId'' = Inr cryptoId"
    and "get_prop payload ''alertPrice'' = Inr alertPrice"
    and "get_prop payload ''currentPrice'' = Inr currentPrice"
    and "get_prop payload ''alertType'' = Inr alertType"
    and "get_prop payload ''message'' = Inr message"
  shows "(truthy message \<longrightarrow>
            UserNotificationHandler_handle nstr event
            = ([SendToUser uid (JObj [(''message'', message)])], None))
       \<and> (\<not> truthy message \<longrightarrow>
            (\<forall>c a p. js_to_string nstr cryptoId = Inr c \<and> js_to_string nstr alertPrice = Inr a
                 \<and> js_to_string nstr currentPrice = Inr p \<longrightarrow>
               UserNotificationHandler_handle nstr event
               = ([SendToUser uid (JObj [(''message'',
                     JStr (c @ '' price ''
                           @ (if alertType = JStr ''ABOVE'' then ''surpassed'' else ''dropped below'')
                           @ '' your target of $'' @ a @ ''. Current price is $'' @ p @ ''.''))])],
                  None)))"
  using assms
  by (simp add: UserNotificationHandler_handle_def default_message_def alert_verb_def)

theorem UserNotificationHandler_delivers_witness:
  "UserNotificationHandler_handle (\<lambda>r. [])
     (JObj [(''eventType'', JStr ''USER_NOTIFICATION''),
            (''payload'', JObj [(''userId'', JStr ''user123''), (''cryptoId'', JStr ''bitcoin''),
                                (''alertPrice'', JStr ''40000''), (''currentPrice'', JStr ''39000''),
                                (''alertType'', JStr ''BELOW'')])])
   = ([SendToUser (JStr ''user123'')
         (JObj [(''message'',
            JStr ''bitcoin price dropped below your target of $40000. Current price is $39000.'')])],
      None)
   \<and> UserNotificationHandler_handle (\<lambda>r. [])
     (JObj [(''eventType'', JStr ''USER_NOTIFICATION''),
            (''payload'', JObj [(''userId'', JStr ''user123''), (''cryptoId'', JStr ''bitcoin''),
                                (''alertPrice'', JStr ''40000''), (''currentPrice'', JStr ''39000''),
                                (''alertType'', JStr ''BELOW''),
                                (''message'', JStr ''This is a custom alert message!'')])])
   = ([SendToUser (JStr ''user123'') (JObj [(''message'', JStr ''This is a custom alert message!'')])],
      None)"
proof -
  let ?p1 = "JObj [(''userId'', JStr ''user123''), (''cryptoId'', JStr ''bitcoin''),
                   (''alertPrice'', JStr ''40000''), (''currentPrice'', JStr ''39000''),
                   (''alertType'', JStr ''BELOW'')]"
  let ?p2 = "JObj [(''userId'', JStr ''user123''), (''cryptoId'', JStr ''bitcoin''),
                   (''alertPrice'', JStr ''40000''), (''currentPrice'', JStr ''39000''),
                   (''alertType'', JStr ''BELOW''),
                   (''message'', JStr ''This is a custom alert message!'')]"
  let ?e1 = "JObj [(''eventType'', JStr ''USER_NOTIFICATION''), (''payload'', ?p1)]"
  let ?e2 = "JObj [(''eventType'', JStr ''USER_NOTIFICATION''), (''payload'', ?p2)]"
  have e1: "get_prop ?e1 ''payload'' = Inr ?p1" by simp
  have e2: "get_prop ?e2 ''payload'' = Inr ?p2" by simp
  have f1: "get_prop ?p1 ''userId'' = Inr (JStr ''user123'')"
    "get_prop ?p1 ''cryptoId'' = Inr (JStr ''bitcoin'')"
    "get_prop ?p1 ''alertPrice'' = Inr (JStr ''40000'')"
    "get_prop ?p1 ''currentPrice'' = Inr (JStr ''39000'')"
    "get_prop ?p1 ''alertType'' = Inr (JStr ''BELOW'')"
    "get_prop ?p1 ''message'' = Inr JUndefined"
    by simp_all
  have f2: "get_prop ?p2 ''userId'' = Inr (JStr ''user123'')"
    "get_prop ?p2 ''cryptoId'' = Inr (JStr ''bitcoin'')"
    "get_prop ?p2 ''alertPrice'' = Inr (JStr ''40000'')"
    "get_prop ?p2 ''currentPrice'' = Inr (JStr ''39000'')"
    "get_prop ?p2 ''alertType'' = Inr (JStr ''BELOW'')"
    "get_prop ?p2 ''message'' = Inr (JStr ''This is a custom alert message!'')"
    by simp_all
  from UserNotificationHandler_delivers [OF e1 f1, of "\<lambda>r. []"]
    UserNotificationHandler_delivers [OF e2 f2, of "\<lambda>r. []"]
  show ?thesis by simp
qed

section \<open>Properties of the relay adapter\<close>

text \<open>
  C9. For every currency and message and every outcome of the HTTP call, the promise
  returned by \<open>sendNotification\<close> is fulfilled, never rejected: a failure of the call
  is written to the console and swallowed. The handler does not await the promise, so
  a relay failure reaches neither the broadcast nor \<open>dispatch\<close>.
\<close>

theorem sendNotification_never_rejects:
  "fst (sendNotification baseUrl axios_post currency messageJson) = Fulfilled ()
   \<and> (\<forall>error. axios_post (baseUrl @ ''/data?currency='' @ currency) messageJson = Inl error \<longrightarrow>
        sendNotification baseUrl axios_post currency messageJson
        = (Fulfilled (), [ConsoleError ''Error notifying notification service:'' error]))
   \<and> (\<forall>response. axios_post (baseUrl @ ''/data?currency='' @ currency) messageJson = Inr response \<longrightarrow>
        sendNotification baseUrl axios_post currency messageJson = (Fulfilled (), []))"
  by (auto simp: sendNotification_def split: sum.splits)

theorem sendNotification_never_rejects_witness:
  "sendNotification (NotificationAdapter_baseUrl None None)
     (\<lambda>url body. if url = ''http://notification:3000/data?currency=eur''
                  then Inl (Error ''connect ECONNREFUSED'') else Inr JNull)
     ''eur'' (JObj [(''timestamp'', JStr ''t2''), (''payload'', JArr [])])
   = (Fulfilled (), [ConsoleError ''Error notifying notification service:'' (Error ''connect ECONNREFUSED'')])"
proof -
  let ?post = "\<lambda>url body. if url = ''http://notification:3000/data?currency=eur''
                  then Inl (Error ''connect ECONNREFUSED'') else Inr JNull :: js_error + jsval"
  let ?m = "JObj [(''timestamp'', JStr ''t2''), (''payload'', JArr [])]"
  have u: "NotificationAdapter_baseUrl None None @ ''/data?currency='' @ ''eur''
           = ''http://notification:3000/data?currency=eur''"
    by (simp add: NotificationAdapter_baseUrl_def env_or_def)
  then have f: "?post (NotificationAdapter_baseUrl None None @ ''/data?currency='' @ ''eur'') ?m
           = Inl (Error ''connect ECONNREFUSED'')"
    by simp
  from sendNotification_never_rejects [where baseUrl = "NotificationAdapter_baseUrl None None"
      and axios_post = ?post and currency = "''eur''" and messageJson = ?m] f
  show ?thesis by blast
qed

section \<open>Properties of the socket adapter\<close>

text \<open>
  C3. For every connection attempt on the authenticated server: a missing (or empty)
  cookie header is refused with \<open>No cookies provided\<close> and a missing (or empty)
  \<open>authToken\<close> cookie with \<open>No authToken provided in cookies\<close>, the two
  missing-credential refusals; a token for which \<open>validateToken\<close> yields \<open>null\<close> is
  refused with \<open>Unauthorized\<close>, and so is one for which it throws; and the connection
  is admitted only when \<open>validateToken\<close> yields a \<open>userId\<close>, which is then bound to the
  socket.
\<close>

theorem auth_middleware_admission:
  "(cookieHeader = None \<or> cookieHeader = Some [] \<longrightarrow>
      auth_middleware cookie_parse validateToken sock cookieHeader
      = (sock, NextError ''No cookies provided''))
   \<and> (\<forall>h cookies. cookieHeader = Some h \<and> h \<noteq> [] \<and> cookie_parse h = Inr cookies \<longrightarrow>
        ((cookies ''authToken'' = None \<or> cookies ''authToken'' = Some [] \<longrightarrow>
            auth_middleware cookie_parse validateToken sock cookieHeader
            = (sock, NextError ''No authToken provided in cookies''))
         \<and> (\<forall>authToken. cookies ''authToken'' = Some authToken \<and> authToken \<noteq> [] \<longrightarrow>
              (validateToken authToken = Inr None \<longrightarrow>
                 auth_middleware cookie_parse validateToken sock cookieHeader
                 = (sock, NextError ''Unauthorized''))
            \<and> (\<forall>error. validateToken authToken = Inl error \<longrightarrow>
                 auth_middleware cookie_parse validateToken sock cookieHeader
                 = (sock, NextError ''Unauthorized''))
            \<and> (\<forall>uid. validateToken authToken = Inr (Some uid) \<longrightarrow>
                 auth_middleware cookie_parse validateToken sock cookieHeader
                 = (sock\<lparr>userId := Some uid\<rparr>, Next)))))
   \<and> (snd (auth_middleware cookie_parse validateToken sock cookieHeader) = Next \<longrightarrow>
        (\<exists>h cookies authToken uid. cookieHeader = Some h \<and> cookie_parse h = Inr cookies
            \<and> cookies ''authToken'' = Some authToken
            \<and> validateToken authToken = Inr (Some uid)
            \<and> fst (auth_middleware cookie_parse validateToken sock cookieHeader)
                = sock\<lparr>userId := Some uid\<rparr>))"
  by (auto simp: auth_middleware_def split: option.splits sum.splits if_splits)

theorem auth_middleware_admission_witness:
  "auth_middleware
     (\<lambda>h. if h = ''authToken=abc'' then Inr [''authToken'' \<mapsto> ''abc''] else Inr Map.empty)
     (\<lambda>t. if t = ''abc'' then Inr (Some ''u1'') else (Inr None :: js_error + string option))
     \<lparr>socket_id = ''s1'', userId = None\<rparr> None
   = (\<lparr>socket_id = ''s1'', userId = None\<rparr>, NextError ''No cookies provided'')
   \<and> auth_middleware
     (\<lambda>h. if h = ''authToken=abc'' then Inr [''authToken'' \<mapsto> ''abc''] else Inr Map.empty)
     (\<lambda>t. if t = ''abc'' then Inr (Some ''u1'') else (Inr None :: js_error + string option))
     \<lparr>socket_id = ''s1'', userId = None\<rparr> (Some ''theme=dark'')
   = (\<lparr>socket_id = ''s1'', userId = None\<rparr>, NextError ''No authToken provided in cookies'')
   \<and> auth_middleware
     (\<lambda>h. if h = ''authToken=abc'' then Inr [''authToken'' \<mapsto> ''abc''] else Inr Map.empty)
     (\<lambda>t. if t = ''abc'' then Inr (Some ''u1'') else (Inr None :: js_error + string option))
     \<lparr>socket_id = ''s1'', userId = None\<rparr> (Some ''authToken=abc'')
   = (\<lparr>socket_id = ''s1'', userId = Some ''u1''\<rparr>, Next)
   \<and> auth_middleware
     (\<lambda>h. if h = ''authToken=abc'' then Inr [''authToken'' \<mapsto> ''abc''] else Inr Map.empty)
     (\<lambda>t. Inl (Error ''network''))
     \<lparr>socket_id = ''s1'', userId = None\<rparr> (Some ''authToken=abc'')
   = (\<lparr>socket_id = ''s1'', userId = None\<rparr>, NextError ''Unauthorized'')"
proof -
  let ?parse = "\<lambda>h. if h = ''authToken=abc'' then Inr [''authToken'' \<mapsto> ''abc''] else Inr Map.empty
                  :: js_error + (string \<rightharpoonup> string)"
  let ?ok = "\<lambda>t. if t = ''abc'' then Inr (Some ''u1'') else Inr None :: js_error + string option"
  let ?throw = "\<lambda>t::string. Inl (Error ''network'') :: js_error + string option"
  let ?s = "\<lparr>socket_id = ''s1'', userId = None\<rparr>"
  note t = auth_middleware_admission [where cookie_parse = ?parse and sock = ?s]
  from t [where validateToken = ?ok and cookieHeader = None]
  have 1: "auth_middleware ?parse ?ok ?s None = (?s, NextError ''No cookies provided'')"
    by simp
  from t [where validateToken = ?ok and cookieHeader = "Some ''theme=dark''"]
  have 2: "auth_middleware ?parse ?ok ?s (Some ''theme=dark'')
           = (?s, NextError ''No authToken provided in cookies'')"
    by simp
  from t [where validateToken = ?ok and cookieHeader = "Some ''authToken=abc''"]
  have 3: "auth_middleware ?parse ?ok ?s (Some ''authToken=abc'') = (?s\<lparr>userId := Some ''u1''\<rparr>, Next)"
    by simp
  from t [where validateToken = ?throw and cookieHeader = "Some ''authToken=abc''"]
  have 4: "auth_middleware ?parse ?throw ?s (Some ''authToken=abc'') = (?s, NextError ''Unauthorized'')"
    by simp
  from 1 2 3 4 show ?thesis by simp
qed

lemma new_SocketIOAdapter_eq:
  "new_SocketIOAdapter = \<lparr>isInitialized = True, userSocketMap = empty_user_socket_map\<rparr>"
  by (simp add: new_SocketIOAdapter_def initialize_def)

text \<open>
  On a table whose prototype was never replaced, and for a key that is an ordinary map
  key, the connection handlers and \<open>sendToUser\<close> act on the own properties alone.
\<close>

lemma sendToUser_ordinary:
  assumes "isInitialized a" and "proto (userSocketMap a) = None" and "ordinary_key uid"
  shows "sendToUser a uid messageJson
         = Some (case own (userSocketMap a) uid of
                   Some s \<Rightarrow> Inr [SocketEmit s ''user-specific-event'' messageJson]
                 | None \<Rightarrow> Inr [])"
  using assms by (simp add: sendToUser_def table_get_def ordinary_key_def split: option.splits)

lemma on_connection_ordinary:
  assumes "proto (userSocketMap a) = None" and "socket_key sock \<noteq> ''__proto__''"
  shows "on_connection a sock
         = Some (a\<lparr>userSocketMap := (userSocketMap a)\<lparr>own := (own (userSocketMap a))(socket_key sock \<mapsto> sock)\<rparr>\<rparr>)"
  using assms by (simp add: on_connection_def table_set_def)

lemma on_disconnect_ordinary:
  assumes "proto (userSocketMap a) = None" and "ordinary_key (socket_key sock)"
  shows "on_disconnect a sock
         = Some (case own (userSocketMap a) (socket_key sock) of
                   Some mapped \<Rightarrow>
                     if socket_id mapped = socket_id sock
                     then a\<lparr>userSocketMap := (userSocketMap a)\<lparr>own := (own (userSocketMap a))(socket_key sock := None)\<rparr>\<rparr>
                     else a
                 | None \<Rightarrow> a)"
  using assms
  by (simp add: on_disconnect_def table_get_def table_delete_def ordinary_key_def split: option.splits)

lemma superseded_disconnect_keeps_newer:
  assumes "proto (userSocketMap a) = None" and "ordinary_key u"
    and "userId s1 = Some u" and "userId s2 = Some u" and "socket_id s1 \<noteq> socket_id s2"
  shows "\<exists>a1 a2 a3. on_connection a s1 = Some a1 \<and> on_connection a1 s2 = Some a2
           \<and> on_disconnect a2 s1 = Some a3 \<and> a3 = a2
           \<and> table_get (userSocketMap a3) u = Some (Bound s2)"
  using assms
  by (simp add: on_connection_ordinary on_disconnect_ordinary socket_key_def ordinary_key_def table_get_def)

text \<open>
  C6 at a failing input. On a freshly constructed adapter, to which no user is bound,
  \<open>sendToUser("constructor", message)\<close> is not a silent no-op: the read of the table
  yields the function inherited from \<open>Object.prototype\<close>, which is truthy and has no
  \<open>emit\<close>, and the call throws a TypeError.
\<close>

theorem sendToUser_inherited_name_throws:
  "sendToUser new_SocketIOAdapter ''constructor'' messageJson = Some (Inl TypeError)"
  by (simp add: sendToUser_def new_SocketIOAdapter_eq table_get_def empty_user_socket_map_def
      Object_prototype_names_def)

text \<open>
  C2 at a failing input. A connection bound to the user \<open>__proto__\<close> is stored as the
  prototype of the table, not as a property. When that connection closes, the table
  still points at it, yet \<open>Reflect.deleteProperty\<close> finds no own property to remove:
  the binding stays and \<open>sendToUser\<close> still emits on the closed connection.
\<close>

theorem proto_binding_survives_disconnect:
  "on_connection new_SocketIOAdapter \<lparr>socket_id = ''a'', userId = Some ''__proto__''\<rparr>
   = Some \<lparr>isInitialized = True,
           userSocketMap = \<lparr>own = Map.empty, proto = Some \<lparr>socket_id = ''a'', userId = Some ''__proto__''\<rparr>\<rparr>\<rparr>
   \<and> on_disconnect
        \<lparr>isInitialized = True,
         userSocketMap = \<lparr>own = Map.empty, proto = Some \<lparr>socket_id = ''a'', userId = Some ''__proto__''\<rparr>\<rparr>\<rparr>
        \<lparr>socket_id = ''a'', userId = Some ''__proto__''\<rparr>
     = Some \<lparr>isInitialized = True,
             userSocketMap = \<lparr>own = Map.empty, proto = Some \<lparr>socket_id = ''a'', userId = Some ''__proto__''\<rparr>\<rparr>\<rparr>
   \<and> sendToUser
        \<lparr>isInitialized = True,
         userSocketMap = \<lparr>own = Map.empty, proto = Some \<lparr>socket_id = ''a'', userId = Some ''__proto__''\<rparr>\<rparr>\<rparr>
        ''__proto__'' messageJson
     = Some (Inr [SocketEmit \<lparr>socket_id = ''a'', userId = Some ''__proto__''\<rparr> ''user-specific-event'' messageJson])"
  by (simp add: on_connection_def on_disconnect_def sendToUser_def new_SocketIOAdapter_eq
      table_set_def table_get_def table_delete_def empty_user_socket_map_def socket_key_def)

end
